theory Spec2Isabelle
  imports Complex_Main "HOL-Library.Word" "HOL-Library.List_Lexorder" "HOL-Library.Product_Lexorder"
    "HOL-Library.Multiset"
begin

section \<open>Strings\<close>

text \<open>
  A JavaScript string is a sequence of UTF-16 code units. The Arabic-Indic digits are the
  code units 0x0660 to 0x0669, the Persian digits 0x06F0 to 0x06F9, the Arabic comma is
  0x060C; none of them fits a byte, so the strings of the SDK are lists of 16-bit words.
  \<open>ascii\<close> writes an ASCII literal as such a string.
\<close>

type_synonym cu = "16 word"
type_synonym jsstring = "cu list"

definition ascii :: "string \<Rightarrow> jsstring" where
  "ascii s = map of_char s"

text \<open>
  \<open>toWesternDigits\<close>: two global replacements, first of the class [U+0660-U+0669], then
  of [U+06F0-U+06F9]; each matched code unit \<open>d\<close> becomes the one-character string
  \<open>String(d - start)\<close>, the ASCII digit 0x30 + (d - start).
\<close>

definition arabicDigit :: "cu \<Rightarrow> cu" where
  "arabicDigit d = (if 0x660 \<le> d \<and> d \<le> 0x669 then 0x30 + (d - 0x660) else d)"

definition persianDigit :: "cu \<Rightarrow> cu" where
  "persianDigit d = (if 0x6F0 \<le> d \<and> d \<le> 0x6F9 then 0x30 + (d - 0x6F0) else d)"

definition toWesternDigits :: "jsstring \<Rightarrow> jsstring" where
  "toWesternDigits str = map persianDigit (map arabicDigit str)"

text \<open>
  The white space of \<open>String.prototype.trim\<close> and of the regular expression class
  \<open>\s\<close>: tab, line feed, vertical tab, form feed, carriage return, space, no-break space,
  U+1680, U+2000 to U+200A, the line and paragraph separators, U+202F, U+205F, U+3000
  and the byte order mark.
\<close>

definition isWhiteSpace :: "cu \<Rightarrow> bool" where
  "isWhiteSpace c =
     ((0x09 \<le> c \<and> c \<le> 0x0D) \<or> c = 0x20 \<or> c = 0xA0 \<or> c = 0x1680 \<or>
      (0x2000 \<le> c \<and> c \<le> 0x200A) \<or> c = 0x2028 \<or> c = 0x2029 \<or> c = 0x202F \<or>
      c = 0x205F \<or> c = 0x3000 \<or> c = 0xFEFF)"

definition trim :: "jsstring \<Rightarrow> jsstring" where
  "trim s = rev (dropWhile isWhiteSpace (rev (dropWhile isWhiteSpace s)))"

text \<open>
  \<open>str.replace(/'/g, "''")\<close>: every apostrophe (0x27) is doubled, so that the text can
  stand between the quotes of an SQL string literal.
\<close>

definition apostrophe :: cu where
  "apostrophe = 0x27"

definition escapeQuotes :: "jsstring \<Rightarrow> jsstring" where
  "escapeQuotes s = concat (map (\<lambda>c. if c = apostrophe then [apostrophe, apostrophe] else [c]) s)"

text \<open>
  What an SQL string literal denotes when the text \<open>t\<close> is interpolated between two
  quotes: a doubled apostrophe stands for one apostrophe; a single apostrophe ends the
  literal inside \<open>t\<close>, and then the statement the backend receives is not the one the
  SDK wrote (\<open>None\<close>).
\<close>

fun sqlLiteral :: "jsstring \<Rightarrow> jsstring option" where
  "sqlLiteral [] = Some []"
| "sqlLiteral [c] = (if c = apostrophe then None else Some [c])"
| "sqlLiteral (c # d # cs) =
     (if c = apostrophe
      then (if d = apostrophe then map_option ((#) apostrophe) (sqlLiteral cs) else None)
      else map_option ((#) c) (sqlLiteral (d # cs)))"

section \<open>Data model\<close>

text \<open>
  The columns of a tile file (the sixteen address columns) and the two computed columns
  of the queries, \<open>distance_m\<close> and \<open>similarity\<close>. The same names are the keys of the
  result objects.
\<close>

datatype column =
    Addr_id | Longitude | Latitude | Number | Street | Postcode
  | District_ar | District_en | City | Gov_ar | Gov_en | Region_ar | Region_en
  | Full_address_ar | Full_address_en | H3_index
  | Distance_m | Similarity

datatype val = Num real | Str jsstring | Null | Undefined | NaN

text \<open>A stored address: the value of each column. A result row or object: its keys, in
  order, with their values; reading a key that is absent gives \<open>undefined\<close>.\<close>

type_synonym address = "column \<Rightarrow> val"
type_synonym obj = "(column \<times> val) list"

definition getField :: "obj \<Rightarrow> column \<Rightarrow> val" where
  "getField r c = (case map_of r c of Some v \<Rightarrow> v | None \<Rightarrow> Undefined)"

definition keys :: "obj \<Rightarrow> column list" where
  "keys r = map fst r"

record PostcodeInfo =
  postcode :: jsstring
  tiles :: "jsstring list"
  addr_count :: int
  region_ar :: "jsstring option"
  region_en :: "jsstring option"

record TileInfo =
  h3_tile :: jsstring
  addr_count :: int
  min_lon :: real
  max_lon :: real
  min_lat :: real
  max_lat :: real
  file_size_kb :: int
  region_ar :: "jsstring option"
  region_en :: "jsstring option"

datatype language = Ar | En

text \<open>The instance: \<open>config.dataUrl\<close>, \<open>config.language\<close>, whether \<open>conn\<close> is set, and
  the private fields. \<open>loadedTiles\<close> is a Set: insertion order, no duplicates.\<close>

record GeoSDKH3 =
  dataUrl :: jsstring
  language :: language
  conn :: bool
  initialized :: bool
  ftsAvailable :: bool
  tileIndex :: "TileInfo list"
  postcodeIndex :: "jsstring \<rightharpoonup> PostcodeInfo"
  loadedTiles :: "jsstring list"

definition DEFAULT_DATA_URL :: jsstring where
  "DEFAULT_DATA_URL = ascii ''https://data.source.coop/tabaqat/geocoding-cng/v0.1.0''"

definition constructor :: "jsstring option \<Rightarrow> language option \<Rightarrow> GeoSDKH3" where
  "constructor url lang =
     \<lparr> dataUrl = (case url of Some u \<Rightarrow> u | None \<Rightarrow> DEFAULT_DATA_URL),
       language = (case lang of Some l \<Rightarrow> l | None \<Rightarrow> Ar),
       conn = False, initialized = False, ftsAvailable = False,
       tileIndex = [], postcodeIndex = Map.empty, loadedTiles = [] \<rparr>"

section \<open>The query backend\<close>

text \<open>
  The SDK talks to DuckDB-WASM through \<open>conn.query\<close>; every call either resolves with
  rows or rejects. The backend is a parameter of the model: which engine parts load,
  what each remote file holds (\<open>None\<close>: reading it fails), the polygon test of the
  country view, the two H3 functions, and the SQL functions whose values the SDK only
  orders by (BM25 score, JACCARD) or compares through (UPPER).
\<close>

datatype extension = Spatial | H3 | Fts

record backend =
  instantiate_ok :: bool
  extension_ok :: "extension \<Rightarrow> bool"
  tile_index_parquet :: "jsstring \<Rightarrow> TileInfo list option"
  postcode_index_parquet :: "jsstring \<Rightarrow> PostcodeInfo list option"
  boundary_parquet :: "jsstring \<Rightarrow> bool"
  tile_parquet :: "jsstring \<Rightarrow> address list option"
  sa_contains :: "real \<Rightarrow> real \<Rightarrow> bool option"
  h3_latlng_to_cell :: "real \<Rightarrow> real \<Rightarrow> jsstring option"
  h3_grid_disk :: "jsstring \<Rightarrow> jsstring list"
  match_bm25 :: "column \<Rightarrow> jsstring \<Rightarrow> address list \<Rightarrow> (address \<times> real) list option"
  jaccard :: "jsstring \<Rightarrow> jsstring \<Rightarrow> real"
  upper :: "jsstring \<Rightarrow> jsstring"

text \<open>The statements an operation sends, in order: the trace of its backend calls.\<close>

datatype request =
    Install extension
  | ReadIndex jsstring
  | CreateView jsstring
  | CountryLookup real real
  | CellLookup real real
  | DiskLookup jsstring
  | ReadTiles "jsstring list"

datatype error =
    NotInitialized
  | EngineFailure
  | QueryFailed
  | TileIndexUnavailable
  | MalformedStatement

section \<open>Initialization\<close>

text \<open>
  Step 5 of \<open>initialize\<close>: the tile index is read from the configured base URL; when that
  fails and the base URL is not the default one, it is read from the default URL, and
  the base URL in effect becomes the default; when the second read fails too, or the
  base URL was the default already, the error is thrown.
\<close>

definition tileIndexUrl :: "jsstring \<Rightarrow> jsstring" where
  "tileIndexUrl base = base @ ascii ''/tile_index.parquet''"

definition postcodeIndexUrl :: "jsstring \<Rightarrow> jsstring" where
  "postcodeIndexUrl base = base @ ascii ''/postcode_index.parquet''"

definition loadTileIndex ::
  "backend \<Rightarrow> jsstring \<Rightarrow> (error + TileInfo list \<times> jsstring) \<times> request list" where
  "loadTileIndex b baseUrl =
     (case tile_index_parquet b (tileIndexUrl baseUrl) of
        Some rows \<Rightarrow> (Inr (rows, baseUrl), [ReadIndex (tileIndexUrl baseUrl)])
      | None \<Rightarrow>
          if baseUrl \<noteq> DEFAULT_DATA_URL
          then (case tile_index_parquet b (tileIndexUrl DEFAULT_DATA_URL) of
                  Some rows \<Rightarrow>
                    (Inr (rows, DEFAULT_DATA_URL),
                     [ReadIndex (tileIndexUrl baseUrl), ReadIndex (tileIndexUrl DEFAULT_DATA_URL)])
                | None \<Rightarrow>
                    (Inl TileIndexUnavailable,
                     [ReadIndex (tileIndexUrl baseUrl), ReadIndex (tileIndexUrl DEFAULT_DATA_URL)]))
          else (Inl QueryFailed, [ReadIndex (tileIndexUrl baseUrl)]))"

text \<open>Step 6: every row of the postcode index is stored under its postcode; a failure
  of the read is caught and leaves the index as it was.\<close>

definition loadPostcodeIndex :: "backend \<Rightarrow> jsstring \<Rightarrow> GeoSDKH3 \<Rightarrow> GeoSDKH3" where
  "loadPostcodeIndex b actualBaseUrl s =
     (case postcode_index_parquet b (postcodeIndexUrl actualBaseUrl) of
        Some rows \<Rightarrow>
          s\<lparr>postcodeIndex := fold (\<lambda>row m. m(postcode row \<mapsto> row)) rows (postcodeIndex s)\<rparr>
      | None \<Rightarrow> s)"

text \<open>The three boundary views, created one after the other; the first that fails
  throws.\<close>

definition boundaryUrls :: "jsstring \<Rightarrow> jsstring list" where
  "boundaryUrls base =
     [base @ ascii ''/world_countries_simple.parquet'',
      base @ ascii ''/sa_regions_simple.parquet'',
      base @ ascii ''/sa_districts_simple.parquet'']"

fun createViews :: "backend \<Rightarrow> jsstring list \<Rightarrow> (error + unit) \<times> request list" where
  "createViews b [] = (Inr (), [])"
| "createViews b (u # us) =
     (if boundary_parquet b u
      then (case createViews b us of (r, tr) \<Rightarrow> (r, CreateView u # tr))
      else (Inl QueryFailed, [CreateView u]))"

definition initialize :: "backend \<Rightarrow> GeoSDKH3 \<Rightarrow> (error + unit) \<times> GeoSDKH3 \<times> request list" where
  "initialize b s =
     (if initialized s then (Inr (), s, [])
      else if \<not> instantiate_ok b then (Inl EngineFailure, s, [])
      else if \<not> extension_ok b Spatial then (Inl QueryFailed, s\<lparr>conn := True\<rparr>, [Install Spatial])
      else if \<not> extension_ok b H3
        then (Inl QueryFailed, s\<lparr>conn := True\<rparr>, [Install Spatial, Install H3])
      else
        let s2 = s\<lparr>conn := True, ftsAvailable := extension_ok b Fts\<rparr>;
            pre = [Install Spatial, Install H3, Install Fts]
        in (case loadTileIndex b (dataUrl s2) of
              (Inl e, tr) \<Rightarrow> (Inl e, s2, pre @ tr)
            | (Inr (rows, actualBaseUrl), tr) \<Rightarrow>
                let s4 = loadPostcodeIndex b actualBaseUrl
                           (s2\<lparr>dataUrl := actualBaseUrl, tileIndex := rows\<rparr>);
                    tr2 = [ReadIndex (postcodeIndexUrl actualBaseUrl)]
                in (case createViews b (boundaryUrls actualBaseUrl) of
                      (Inl e, tr3) \<Rightarrow> (Inl e, s4, pre @ tr @ tr2 @ tr3)
                    | (Inr u, tr3) \<Rightarrow>
                        (Inr (), s4\<lparr>initialized := True\<rparr>, pre @ tr @ tr2 @ tr3))))"

definition ensureInitialized :: "GeoSDKH3 \<Rightarrow> error + unit" where
  "ensureInitialized s = (if \<not> initialized s \<or> \<not> conn s then Inl NotInitialized else Inr ())"

section \<open>Queries over tile files\<close>

text \<open>
  \<open>read_parquet([...])\<close> over a list of remote files is one statement with one outcome:
  it yields the rows of all the files, in the order of the list, or it rejects (a file
  that cannot be read, an empty list).
\<close>

definition tileUrl :: "jsstring \<Rightarrow> jsstring \<Rightarrow> jsstring" where
  "tileUrl baseUrl t = baseUrl @ ascii ''/tiles/'' @ t @ ascii ''.parquet''"

fun read_files :: "backend \<Rightarrow> jsstring list \<Rightarrow> address list option" where
  "read_files b [] = Some []"
| "read_files b (u # us) =
     (case tile_parquet b u of
        None \<Rightarrow> None
      | Some rows \<Rightarrow> map_option ((@) rows) (read_files b us))"

definition read_parquet :: "backend \<Rightarrow> jsstring list \<Rightarrow> address list option" where
  "read_parquet b urls = (if urls = [] then None else read_files b urls)"

text \<open>A select list: named columns, or the star, which stands for the sixteen stored
  columns.\<close>

datatype selector = Col column | Star

definition storedColumns :: "column list" where
  "storedColumns =
     [Addr_id, Longitude, Latitude, Number, Street, Postcode, District_ar, District_en, City,
      Gov_ar, Gov_en, Region_ar, Region_en, Full_address_ar, Full_address_en, H3_index]"

definition selectColumns :: "selector list \<Rightarrow> address \<Rightarrow> obj" where
  "selectColumns sel a =
     concat (map (\<lambda>x. case x of Col c \<Rightarrow> [(c, a c)]
                           | Star \<Rightarrow> map (\<lambda>c. (c, a c)) storedColumns) sel)"

text \<open>The select list of the text and postcode searches: fifteen columns, no
  \<open>h3_index\<close>.\<close>

definition searchColumns :: "selector list" where
  "searchColumns =
     map Col [Addr_id, Longitude, Latitude, Number, Street, Postcode, District_ar, District_en,
       City, Gov_ar, Gov_en, Region_ar, Region_en, Full_address_ar, Full_address_en]"

text \<open>
  ORDER BY keys. The statements give one sort key and no second one; rows with equal
  keys are modelled in the order the files deliver them (\<open>sort_key\<close> is stable), and
  NULL sorts last. Strings compare by code unit.
\<close>

definition numKey :: "val \<Rightarrow> bool \<times> real" where
  "numKey v = (case v of Num x \<Rightarrow> (False, x) | _ \<Rightarrow> (True, 0))"

definition descKey :: "val \<Rightarrow> bool \<times> real" where
  "descKey v = (case v of Num x \<Rightarrow> (False, - x) | _ \<Rightarrow> (True, 0))"

definition strKey :: "val \<Rightarrow> bool \<times> jsstring" where
  "strKey v = (case v of Str x \<Rightarrow> (False, x) | _ \<Rightarrow> (True, []))"

definition between :: "val \<Rightarrow> real \<Rightarrow> real \<Rightarrow> bool" where
  "between v lo hi = (case v of Num x \<Rightarrow> lo \<le> x \<and> x \<le> hi | _ \<Rightarrow> False)"

text \<open>\<open>Number(row.addr_id)\<close>: a number stays, null becomes 0, undefined is not a number.
  The id column is taken to hold no strings, and ids to lie where the conversion is
  exact (below 2 to the 53).\<close>

definition toNumber :: "val \<Rightarrow> val" where
  "toNumber v = (case v of Num x \<Rightarrow> Num x | Null \<Rightarrow> Num 0 | _ \<Rightarrow> NaN)"

section \<open>Options\<close>

datatype detailLevel = Minimal | PostcodeDetail | RegionDetail | Full

text \<open>The option objects of the operations; every field is optional, and an operation
  reads the fields it knows. A limit is a natural number.\<close>

record options =
  limit :: "nat option"
  radiusMeters :: "real option"
  detailLevel :: "detailLevel option"
  includeNeighbors :: "bool option"
  bbox :: "(real \<times> real \<times> real \<times> real) option"
  region :: "jsstring option"
  number :: "jsstring option"

definition noOptions :: options where
  "noOptions = \<lparr> limit = None, radiusMeters = None, detailLevel = None, includeNeighbors = None,
     bbox = None, region = None, number = None \<rparr>"

definition orElse :: "'a option \<Rightarrow> 'a \<Rightarrow> 'a" where
  "orElse x d = (case x of Some v \<Rightarrow> v | None \<Rightarrow> d)"

text \<open>The truth value of an optional array: false when absent.\<close>

definition present :: "'a option \<Rightarrow> bool" where
  "present x = (case x of Some v \<Rightarrow> True | None \<Rightarrow> False)"

text \<open>The truth value of an optional string: absent and empty are both false.\<close>

definition truthy :: "jsstring option \<Rightarrow> bool" where
  "truthy x = (case x of Some v \<Rightarrow> v \<noteq> [] | None \<Rightarrow> False)"

section \<open>Reverse geocoding\<close>

definition isInSaudiArabia ::
  "backend \<Rightarrow> GeoSDKH3 \<Rightarrow> real \<Rightarrow> real \<Rightarrow> (error + bool) \<times> request list" where
  "isInSaudiArabia b s lat lon =
     (case ensureInitialized s of
        Inl e \<Rightarrow> (Inl e, [])
      | Inr u \<Rightarrow>
          if lon < 34.5 \<or> lon > 55.7 \<or> lat < 16.3 \<or> lat > 32.2 then (Inr False, [])
          else (case sa_contains b lat lon of
                  None \<Rightarrow> (Inl QueryFailed, [CountryLookup lat lon])
                | Some inside \<Rightarrow> (Inr inside, [CountryLookup lat lon])))"

fun getColumnsForDetailLevel :: "detailLevel \<Rightarrow> selector list" where
  "getColumnsForDetailLevel Minimal = [Col Addr_id, Col Longitude, Col Latitude]"
| "getColumnsForDetailLevel PostcodeDetail =
     [Col Addr_id, Col Longitude, Col Latitude] @ [Col Postcode, Col Region_ar, Col Region_en]"
| "getColumnsForDetailLevel RegionDetail =
     [Col Addr_id, Col Longitude, Col Latitude] @
     [Col Postcode, Col District_ar, Col District_en, Col City, Col Region_ar, Col Region_en]"
| "getColumnsForDetailLevel Full = [Star]"

definition copyFields :: "obj \<Rightarrow> column list \<Rightarrow> obj" where
  "copyFields row cs = map (\<lambda>c. (c, getField row c)) cs"

definition mapRow :: "detailLevel \<Rightarrow> obj \<Rightarrow> obj" where
  "mapRow level row =
     (let result = [(Addr_id, toNumber (getField row Addr_id)), (Longitude, getField row Longitude),
                    (Latitude, getField row Latitude), (Distance_m, getField row Distance_m)]
      in if level = Minimal then result
         else if level = PostcodeDetail
           then result @ copyFields row [Postcode, Region_ar, Region_en]
         else if level = RegionDetail
           then result @ copyFields row [Postcode, District_ar, District_en, City, Region_ar, Region_en]
         else result @ copyFields row
                [Number, Street, Postcode, District_ar, District_en, City, Gov_ar, Gov_en,
                 Region_ar, Region_en, Full_address_ar, Full_address_en, H3_index])"

text \<open>The keys of a result object depend on the detail level only.\<close>

definition resultKeys :: "detailLevel \<Rightarrow> column list" where
  "resultKeys level = keys (mapRow level [])"

definition mapResultsToGeocodingResult :: "obj list \<Rightarrow> detailLevel \<Rightarrow> obj list" where
  "mapResultsToGeocodingResult rows level = map (mapRow level) rows"

text \<open>The great-circle distance of the statement, over the reals.\<close>

definition radians :: "real \<Rightarrow> real" where
  "radians x = x * pi / 180"

definition haversine :: "real \<Rightarrow> real \<Rightarrow> real \<Rightarrow> real \<Rightarrow> real" where
  "haversine lat lon latitude longitude =
     6371000 * 2 * arcsin (sqrt (
       (sin ((radians latitude - radians lat) / 2))\<^sup>2 +
       cos (radians lat) * cos (radians latitude) *
       (sin ((radians longitude - radians lon) / 2))\<^sup>2))"

definition distance_m :: "real \<Rightarrow> real \<Rightarrow> address \<Rightarrow> val" where
  "distance_m lat lon a =
     (case (a Latitude, a Longitude) of
        (Num latitude, Num longitude) \<Rightarrow> Num (haversine lat lon latitude longitude)
      | _ \<Rightarrow> Null)"

text \<open>The statement of \<open>reverseGeocode\<close>: projection and distance, the box predicate,
  ORDER BY \<open>distance_m\<close>, LIMIT. The cell and neighbour lookups before it are taken to
  answer; only the country lookup and the tile read can be rejected.\<close>

definition nearbyQuery ::
  "selector list \<Rightarrow> real \<Rightarrow> real \<Rightarrow> real \<Rightarrow> real \<Rightarrow> nat \<Rightarrow> address list \<Rightarrow> obj list" where
  "nearbyQuery columns lat lon lonDelta latDelta maxRows rows =
     take maxRows (sort_key (\<lambda>r. numKey (getField r Distance_m))
       (map (\<lambda>a. selectColumns columns a @ [(Distance_m, distance_m lat lon a)])
         (filter (\<lambda>a. between (a Longitude) (lon - lonDelta) (lon + lonDelta) \<and>
                       between (a Latitude) (lat - latDelta) (lat + latDelta)) rows)))"

definition setAdd :: "'a \<Rightarrow> 'a list \<Rightarrow> 'a list" where
  "setAdd x xs = (if x \<in> set xs then xs else xs @ [x])"

definition reverseGeocode ::
  "backend \<Rightarrow> GeoSDKH3 \<Rightarrow> real \<Rightarrow> real \<Rightarrow> options \<Rightarrow> (error + obj list) \<times> GeoSDKH3 \<times> request list" where
  "reverseGeocode b s lat lon opts =
     (case ensureInitialized s of
        Inl e \<Rightarrow> (Inl e, s, [])
      | Inr u \<Rightarrow>
        (case isInSaudiArabia b s lat lon of
           (Inl e, tr) \<Rightarrow> (Inl e, s, tr)
         | (Inr inSA, tr) \<Rightarrow>
           if \<not> inSA then (Inr [], s, tr)
           else
             (case h3_latlng_to_cell b lat lon of
                None \<Rightarrow> (Inr [], s, tr @ [CellLookup lat lon])
              | Some h3Tile \<Rightarrow>
                (case List.find (\<lambda>t. h3_tile t = h3Tile) (tileIndex s) of
                   None \<Rightarrow> (Inr [], s, tr @ [CellLookup lat lon])
                 | Some tileInfo \<Rightarrow>
                   let maxRows = orElse (limit opts) 10;
                       radius = orElse (radiusMeters opts) 1000;
                       level = orElse (detailLevel opts) Full;
                       neighbors = orElse (includeNeighbors opts) False;
                       columns = getColumnsForDetailLevel level;
                       baseUrl = dataUrl s;
                       tilesToQuery =
                         [h3Tile] @
                         (if neighbors
                          then filter (\<lambda>n. list_ex (\<lambda>t. h3_tile t = n) (tileIndex s))
                                 (h3_grid_disk b h3Tile)
                          else []);
                       tr2 = tr @ [CellLookup lat lon] @
                             (if neighbors then [DiskLookup h3Tile] else []);
                       latRadians = (lat * pi) / 180;
                       lonDegPerKm = 1 / (111.32 * cos latRadians);
                       latDegPerKm = 1 / 110.574;
                       radiusKm = radius / 1000;
                       lonDelta = radiusKm * lonDegPerKm;
                       latDelta = radiusKm * latDegPerKm;
                       tileUrls = map (tileUrl baseUrl) tilesToQuery
                   in (case read_parquet b tileUrls of
                         None \<Rightarrow> (Inl QueryFailed, s, tr2 @ [ReadTiles tileUrls])
                       | Some rows \<Rightarrow>
                           (Inr (mapResultsToGeocodingResult
                                   (nearbyQuery columns lat lon lonDelta latDelta maxRows rows) level),
                            s\<lparr>loadedTiles := setAdd h3Tile (loadedTiles s)\<rparr>,
                            tr2 @ [ReadTiles tileUrls]))))))"

section \<open>Postcode search\<close>

text \<open>
  The statement of \<open>searchByPostcode\<close>. Two texts are interpolated between quotes: the
  one compared with the \<open>postcode\<close> column and, when a number filter is built, the one
  compared with the \<open>number\<close> column. The backend reads each as a string literal; the
  comparison with NULL is not true. A text whose literal ends early stops the model with
  \<open>MalformedStatement\<close>: what the backend makes of the rest of such a text is not
  followed.
\<close>

definition postcodeQuery ::
  "jsstring \<Rightarrow> jsstring option \<Rightarrow> nat \<Rightarrow> address list \<Rightarrow> error + obj list" where
  "postcodeQuery postcodeText numberText maxRows rows =
     (case sqlLiteral postcodeText of
        None \<Rightarrow> Inl MalformedStatement
      | Some p \<Rightarrow>
          (case map_option sqlLiteral numberText of
             Some None \<Rightarrow> Inl MalformedStatement
           | None \<Rightarrow>
               Inr (take maxRows (sort_key (\<lambda>r. strKey (getField r Number))
                 (map (selectColumns searchColumns)
                   (filter (\<lambda>a. a Postcode = Str p) rows))))
           | Some (Some n) \<Rightarrow>
               Inr (take maxRows (sort_key (\<lambda>r. strKey (getField r Number))
                 (map (selectColumns searchColumns)
                   (filter (\<lambda>a. a Postcode = Str p \<and> a Number = Str n) rows))))))"

definition searchResult :: "obj \<Rightarrow> obj" where
  "searchResult row =
     (Addr_id, toNumber (getField row Addr_id)) #
     copyFields row [Longitude, Latitude, Number, Street, Postcode, District_ar, District_en,
       City, Gov_ar, Gov_en, Region_ar, Region_en, Full_address_ar, Full_address_en]"

definition searchByPostcode ::
  "backend \<Rightarrow> GeoSDKH3 \<Rightarrow> jsstring \<Rightarrow> options \<Rightarrow> (error + obj list) \<times> GeoSDKH3 \<times> request list" where
  "searchByPostcode b s postcodeText opts =
     (case ensureInitialized s of
        Inl e \<Rightarrow> (Inl e, s, [])
      | Inr u \<Rightarrow>
        let maxRows = orElse (limit opts) 50;
            baseUrl = dataUrl s;
            normalizedPostcode = toWesternDigits (trim postcodeText);
            normalizedNumber =
              (if truthy (number opts)
               then map_option (\<lambda>n. toWesternDigits (trim n)) (number opts) else None)
        in (case postcodeIndex s normalizedPostcode of
              None \<Rightarrow> (Inr [], s, [])
            | Some postcodeInfo \<Rightarrow>
                let tileUrls = map (tileUrl baseUrl) (tiles postcodeInfo);
                    numberFilter =
                      (if truthy normalizedNumber then map_option escapeQuotes normalizedNumber
                       else None)
                in (case read_parquet b tileUrls of
                      None \<Rightarrow> (Inl QueryFailed, s, [ReadTiles tileUrls])
                    | Some rows \<Rightarrow>
                        (case postcodeQuery postcodeText numberFilter maxRows rows of
                           Inl e \<Rightarrow> (Inl e, s, [ReadTiles tileUrls])
                         | Inr result \<Rightarrow> (Inr (map searchResult result), s, [ReadTiles tileUrls])))))"

section \<open>Forward geocoding\<close>

definition overlaps :: "TileInfo \<Rightarrow> real \<times> real \<times> real \<times> real \<Rightarrow> bool" where
  "overlaps t box =
     (case box of (minLat, minLon, maxLat, maxLon) \<Rightarrow>
        min_lon t \<le> maxLon \<and> max_lon t \<ge> minLon \<and> min_lat t \<le> maxLat \<and> max_lat t \<ge> minLat)"

definition inRegion :: "TileInfo \<Rightarrow> jsstring \<Rightarrow> bool" where
  "inRegion t r = (TileInfo.region_ar t = Some r \<or> TileInfo.region_en t = Some r)"

definition MAX_TILES :: nat where
  "MAX_TILES = 50"

text \<open>
  The cap on the tiles of one text search. With a filter: the array is sorted by
  \<open>file_size_kb\<close> (a stable sort) and cut to its first \<open>MAX_TILES\<close>. Without: the
  elements whose index is a multiple of \<open>step = ceil(length / MAX_TILES)\<close>, cut to
  \<open>MAX_TILES\<close>.
\<close>

definition capTiles :: "bool \<Rightarrow> TileInfo list \<Rightarrow> TileInfo list" where
  "capTiles filtered tilesToQuery =
     (if length tilesToQuery > MAX_TILES
      then (if filtered
            then take MAX_TILES (sort_key file_size_kb tilesToQuery)
            else let step = nat \<lceil>real (length tilesToQuery) / real MAX_TILES\<rceil>
                 in take MAX_TILES
                      (map snd (filter (\<lambda>(i, t). i mod step = 0) (enumerate 0 tilesToQuery))))
      else tilesToQuery)"

text \<open>\<open>split(/[\s,\<dots>]+/)\<close> with white space, the comma and the Arabic comma as
  delimiters: the pieces between maximal runs of delimiters, with an empty piece before
  a leading run and after a trailing one.\<close>

definition isDelimiter :: "cu \<Rightarrow> bool" where
  "isDelimiter c = (isWhiteSpace c \<or> c = 0x2C \<or> c = 0x60C)"

fun splitRuns :: "(cu \<Rightarrow> bool) \<Rightarrow> bool \<Rightarrow> jsstring \<Rightarrow> jsstring list" where
  "splitRuns d inRun [] = [[]]"
| "splitRuns d inRun (c # cs) =
     (if d c then (if inRun then splitRuns d True cs else [] # splitRuns d True cs)
      else (case splitRuns d False cs of
              t # ts \<Rightarrow> (c # t) # ts
            | [] \<Rightarrow> [[c]]))"

definition split :: "(cu \<Rightarrow> bool) \<Rightarrow> jsstring \<Rightarrow> jsstring list" where
  "split d str = splitRuns d False str"

definition searchTerms :: "jsstring \<Rightarrow> jsstring list" where
  "searchTerms cleanAddress =
     take 5 (filter (\<lambda>term. length term \<ge> 2) (split isDelimiter cleanAddress))"

text \<open>SQL LIKE: in the pattern, the percent sign matches any run of characters and the
  underscore any one character; every other character matches itself.\<close>

definition percent :: cu where
  "percent = 0x25"

definition underscore :: cu where
  "underscore = 0x5F"

fun sqlLike :: "jsstring \<Rightarrow> jsstring \<Rightarrow> bool" where
  "sqlLike [] str = (str = [])"
| "sqlLike (p # ps) [] = (p = percent \<and> sqlLike ps [])"
| "sqlLike (p # ps) (c # cs) =
     (if p = percent then sqlLike ps (c # cs) \<or> sqlLike (p # ps) cs
      else if p = underscore then sqlLike ps cs
      else p = c \<and> sqlLike ps cs)"

text \<open>
  Containing a string as a substring, as \<open>String.prototype.includes\<close> decides it: the
  yardstick for what the LIKE conditions of the fallback search let through.
\<close>

fun startsWith :: "jsstring \<Rightarrow> jsstring \<Rightarrow> bool" where
  "startsWith str [] = True"
| "startsWith [] (p # ps) = False"
| "startsWith (c # cs) (p # ps) = (c = p \<and> startsWith cs ps)"

fun containsText :: "jsstring \<Rightarrow> jsstring \<Rightarrow> bool" where
  "containsText [] sub = (sub = [])"
| "containsText (c # cs) sub = (startsWith (c # cs) sub \<or> containsText cs sub)"

definition isArabicText :: "jsstring \<Rightarrow> bool" where
  "isArabicText str = list_ex (\<lambda>c. 0x600 \<le> c \<and> c \<le> 0x6FF) str"

text \<open>One condition of the fallback search, for the pattern a term denotes: the address
  field LIKE the pattern, both through UPPER when the query is not Arabic.\<close>

definition likeCondition :: "backend \<Rightarrow> bool \<Rightarrow> jsstring \<Rightarrow> val \<Rightarrow> bool" where
  "likeCondition b isArabic pattern v =
     (case v of
        Str addr \<Rightarrow> if isArabic then sqlLike pattern addr
                    else sqlLike (upper b pattern) (upper b addr)
      | _ \<Rightarrow> False)"

definition similarityOf :: "backend \<Rightarrow> bool \<Rightarrow> jsstring \<Rightarrow> val \<Rightarrow> val" where
  "similarityOf b isArabic query v =
     (case v of
        Str addr \<Rightarrow> if isArabic then Num (jaccard b query addr)
                    else Num (jaccard b (upper b query) (upper b addr))
      | _ \<Rightarrow> Null)"

text \<open>The fallback statement: JACCARD ranking behind the LIKE conditions of the terms
  (or TRUE when there is no term). JACCARD is taken to have a value for every pair of
  strings; the backend's rejection of an empty argument is not modelled.\<close>

definition fallbackQuery ::
  "backend \<Rightarrow> bool \<Rightarrow> column \<Rightarrow> jsstring \<Rightarrow> nat \<Rightarrow> address list \<Rightarrow> error + obj list" where
  "fallbackQuery b isArabic addressField cleanAddress maxRows rows =
     (let terms = searchTerms cleanAddress in
      case (those (map (\<lambda>term. sqlLiteral ([percent] @ term @ [percent])) terms),
            sqlLiteral cleanAddress) of
        (Some patterns, Some query) \<Rightarrow>
          Inr (take maxRows (sort_key (\<lambda>r. descKey (getField r Similarity))
            (map (\<lambda>a. selectColumns searchColumns a @
                        [(Similarity, similarityOf b isArabic query (a addressField))])
              (filter (\<lambda>a. a addressField \<noteq> Null \<and>
                            (if terms \<noteq> []
                             then list_ex (\<lambda>p. likeCondition b isArabic p (a addressField)) patterns
                             else True))
                 rows))))
      | _ \<Rightarrow> Inl MalformedStatement)"

text \<open>The ranked search, inside its try block: any rejection (\<open>None\<close>) is caught.\<close>

definition ftsQuery ::
  "backend \<Rightarrow> column \<Rightarrow> jsstring \<Rightarrow> nat \<Rightarrow> jsstring list \<Rightarrow> obj list option" where
  "ftsQuery b addressField cleanAddress maxRows tileUrls =
     (case read_parquet b tileUrls of
        None \<Rightarrow> None
      | Some rows \<Rightarrow>
          (case sqlLiteral cleanAddress of
             None \<Rightarrow> None
           | Some query \<Rightarrow>
               (case match_bm25 b addressField query (filter (\<lambda>a. a addressField \<noteq> Null) rows) of
                  None \<Rightarrow> None
                | Some scored \<Rightarrow>
                    Some (take maxRows (sort_key (\<lambda>r. descKey (getField r Similarity))
                      (map (\<lambda>(a, score). selectColumns searchColumns a @ [(Similarity, Num score)])
                         scored))))))"

definition geocodeResult :: "obj \<Rightarrow> obj" where
  "geocodeResult row =
     (Addr_id, toNumber (getField row Addr_id)) #
     copyFields row [Longitude, Latitude, Number, Street, Postcode, District_ar, District_en,
       City, Gov_ar, Gov_en, Region_ar, Region_en, Full_address_ar, Full_address_en, Similarity]"

definition candidateTiles :: "GeoSDKH3 \<Rightarrow> options \<Rightarrow> TileInfo list" where
  "candidateTiles s opts =
     (case bbox opts of
        Some box \<Rightarrow> filter (\<lambda>t. overlaps t box) (tileIndex s)
      | None \<Rightarrow>
          if truthy (region opts)
          then filter (\<lambda>t. inRegion t (orElse (region opts) [])) (tileIndex s)
          else tileIndex s)"

definition geocode ::
  "backend \<Rightarrow> GeoSDKH3 \<Rightarrow> jsstring \<Rightarrow> options \<Rightarrow> (error + obj list) \<times> GeoSDKH3 \<times> request list" where
  "geocode b s address opts =
     (case ensureInitialized s of
        Inl e \<Rightarrow> (Inl e, s, [])
      | Inr u \<Rightarrow>
        let maxRows = orElse (limit opts) 10;
            baseUrl = dataUrl s;
            normalizedAddress = toWesternDigits (trim address);
            cleanAddress = escapeQuotes normalizedAddress;
            tilesToQuery = candidateTiles s opts
        in if tilesToQuery = [] then (Inr [], s, [])
           else
             let capped = capTiles (present (bbox opts) \<or> truthy (region opts)) tilesToQuery;
                 tileUrls = map (\<lambda>t. tileUrl baseUrl (h3_tile t)) capped;
                 isArabic = isArabicText cleanAddress;
                 addressField = (if isArabic then Full_address_ar else Full_address_en);
                 ranked = (if ftsAvailable s
                           then ftsQuery b addressField cleanAddress maxRows tileUrls else None);
                 tr = (if ftsAvailable s then [ReadTiles tileUrls] else [])
             in (case ranked of
                   Some result \<Rightarrow> (Inr (map geocodeResult result), s, tr)
                 | None \<Rightarrow>
                     (case read_parquet b tileUrls of
                        None \<Rightarrow> (Inl QueryFailed, s, tr @ [ReadTiles tileUrls])
                      | Some rows \<Rightarrow>
                          (case fallbackQuery b isArabic addressField cleanAddress maxRows rows of
                             Inl e \<Rightarrow> (Inl e, s, tr @ [ReadTiles tileUrls])
                           | Inr result \<Rightarrow>
                               (Inr (map geocodeResult result), s, tr @ [ReadTiles tileUrls])))))"

section \<open>Example data\<close>

definition customUrl :: jsstring where
  "customUrl = ascii ''https://cdn.example/geo''"

definition riyadhTile :: TileInfo where
  "riyadhTile = \<lparr> h3_tile = ascii ''8553a6d3fffffff'', addr_count = 2, min_lon = 46, max_lon = 47,
      min_lat = 24, max_lat = 25, file_size_kb = 400, region_ar = None,
      region_en = Some (ascii ''Riyadh Region'') \<rparr>"

definition fallbackBackend :: backend where
  "fallbackBackend =
     \<lparr> instantiate_ok = True, extension_ok = (\<lambda>e. e \<noteq> Fts),
       tile_index_parquet = (\<lambda>u. if u = tileIndexUrl DEFAULT_DATA_URL then Some [riyadhTile] else None),
       postcode_index_parquet = (\<lambda>u. None),
       boundary_parquet = (\<lambda>u. True),
       tile_parquet = (\<lambda>u. None),
       sa_contains = (\<lambda>lat lon. Some True),
       h3_latlng_to_cell = (\<lambda>lat lon. None),
       h3_grid_disk = (\<lambda>t. []),
       match_bm25 = (\<lambda>c q rows. None),
       jaccard = (\<lambda>a b. 0),
       upper = (\<lambda>s. s) \<rparr>"

definition riyadhUrl :: jsstring where
  "riyadhUrl = tileUrl DEFAULT_DATA_URL (ascii ''8553a6d3fffffff'')"

definition addressAt :: "real \<Rightarrow> real \<Rightarrow> real \<Rightarrow> address" where
  "addressAt i lat lon = (\<lambda>c. Null)(Addr_id := Num i, Latitude := Num lat, Longitude := Num lon)"

definition riyadhBackend :: backend where
  "riyadhBackend =
     \<lparr> instantiate_ok = True, extension_ok = (\<lambda>e. e \<noteq> Fts),
       tile_index_parquet = (\<lambda>u. Some [riyadhTile]),
       postcode_index_parquet = (\<lambda>u. None),
       boundary_parquet = (\<lambda>u. True),
       tile_parquet = (\<lambda>u. if u = riyadhUrl
          then Some [addressAt 2 24.7136 46.6753, addressAt 1 24.7136 46.6753] else None),
       sa_contains = (\<lambda>lat lon. Some True),
       h3_latlng_to_cell = (\<lambda>lat lon. Some (ascii ''8553a6d3fffffff'')),
       h3_grid_disk = (\<lambda>t. [ascii ''8553a6d3fffffff'', ascii ''8553a6d7fffffff'']),
       match_bm25 = (\<lambda>c q rows. None),
       jaccard = (\<lambda>a b. 0),
       upper = (\<lambda>s. s) \<rparr>"

definition spreadBackend :: backend where
  "spreadBackend = riyadhBackend\<lparr> tile_parquet := (\<lambda>u. if u = riyadhUrl
      then Some [addressAt 1 24.7156 46.6753, addressAt 2 24.7186 46.6753,
                 addressAt 3 24.7146 46.6753] else None) \<rparr>"

definition neighborTile :: TileInfo where
  "neighborTile = \<lparr> h3_tile = ascii ''8553a6d7fffffff'', addr_count = 5, min_lon = 47, max_lon = 48,
      min_lat = 24, max_lat = 25, file_size_kb = 300, region_ar = None,
      region_en = Some (ascii ''Riyadh Region'') \<rparr>"

definition twoTileSdk :: GeoSDKH3 where
  "twoTileSdk = (constructor None None)\<lparr> conn := True, initialized := True,
     tileIndex := [riyadhTile, neighborTile] \<rparr>"

definition riyadhSdk :: GeoSDKH3 where
  "riyadhSdk = (constructor None None)\<lparr> conn := True, initialized := True, tileIndex := [riyadhTile] \<rparr>"

definition postcodeAddress :: "real \<Rightarrow> jsstring \<Rightarrow> jsstring \<Rightarrow> address" where
  "postcodeAddress i code num = (\<lambda>c. Null)(Addr_id := Num i, Postcode := Str code, Number := Str num)"

definition postcodeBackend :: backend where
  "postcodeBackend = riyadhBackend\<lparr> tile_parquet := (\<lambda>u. if u = riyadhUrl
      then Some [postcodeAddress 7 (ascii ''13847'') (ascii ''4037''),
                 postcodeAddress 8 (ascii ''13847'') (ascii ''2808''),
                 postcodeAddress 9 (ascii ''13848'') (ascii ''2808'')] else None) \<rparr>"

definition postcodeSdk :: GeoSDKH3 where
  "postcodeSdk = riyadhSdk\<lparr> postcodeIndex := [ascii ''13847'' \<mapsto>
     \<lparr> postcode = ascii ''13847'', tiles = [ascii ''8553a6d3fffffff''], addr_count = 2,
       region_ar = None, region_en = None \<rparr>] \<rparr>"

definition sizedTile :: "nat \<Rightarrow> TileInfo" where
  "sizedTile i = \<lparr> h3_tile = [of_nat i], addr_count = 1, min_lon = 46, max_lon = 47,
      min_lat = 24, max_lat = 25, file_size_kb = 1000 - int i, region_ar = None,
      region_en = Some (ascii ''Riyadh Region'') \<rparr>"

definition manySdk :: GeoSDKH3 where
  "manySdk = riyadhSdk\<lparr> tileIndex := map sizedTile [0..<120] \<rparr>"

definition asciiUpper :: "jsstring \<Rightarrow> jsstring" where
  "asciiUpper str = map (\<lambda>c. if 0x61 \<le> c \<and> c \<le> 0x7A then c - 0x20 else c) str"

definition textAddress :: "real \<Rightarrow> jsstring \<Rightarrow> address" where
  "textAddress i addr = (\<lambda>c. Null)(Addr_id := Num i, Full_address_en := Str addr)"

definition olayaBackend :: backend where
  "olayaBackend = riyadhBackend\<lparr> tile_parquet := (\<lambda>u. if u = riyadhUrl
      then Some [textAddress 3 (ascii ''Al Olaya St, Riyadh'')] else None),
      upper := asciiUpper \<rparr>"

section \<open>Strings: helper facts\<close>

lemma unat_of_char: "unat (of_char c :: 16 word) = of_char c"
proof -
  have "(of_char c :: nat) < 256"
    by (metis of_char_mod_256 mod_less_divisor zero_less_numeral)
  then have "(of_char c :: nat) < 65536" by linarith
  then have "unat (of_nat (of_char c) :: 16 word) = of_char c"
    by (simp add: unat_of_nat)
  then show ?thesis by (simp add: of_nat_of_char)
qed

lemma of_char_word_eq_iff: "(of_char c :: 16 word) = of_char d \<longleftrightarrow> c = d"
proof
  assume "(of_char c :: 16 word) = of_char d"
  then have "unat (of_char c :: 16 word) = unat (of_char d :: 16 word)" by simp
  then have "(of_char c :: nat) = of_char d" by (simp only: unat_of_char)
  then show "c = d" by simp
qed simp

lemma ascii_eq_iff: "ascii s = ascii t \<longleftrightarrow> s = t"
  unfolding ascii_def
  by (simp add: inj_map_eq_map inj_def of_char_word_eq_iff)

section \<open>Properties of initialization\<close>

lemma customUrl_not_default: "customUrl \<noteq> DEFAULT_DATA_URL"
  by (simp add: customUrl_def DEFAULT_DATA_URL_def ascii_eq_iff)

lemma tileIndexUrl_eq_iff: "tileIndexUrl a = tileIndexUrl c \<longleftrightarrow> a = c"
  by (simp add: tileIndexUrl_def)

text \<open>
  C9. When the tile index cannot be read from a custom base URL, \<open>initialize\<close> reads it
  once more, from the default URL, and from nowhere else. If that read succeeds, the
  base URL of the instance is the default one from then on, the tile index is the one
  read there, and the postcode index and the boundary views are requested from the
  default URL. If it fails too, \<open>initialize\<close> throws. If the configured base URL is the
  default one already, the error of the first read is thrown and no second read is made.
\<close>

theorem initialize_fallback:
  assumes "\<not> initialized s" and "instantiate_ok b"
    and "extension_ok b Spatial" and "extension_ok b H3"
    and "tile_index_parquet b (tileIndexUrl (dataUrl s)) = None"
  shows "(dataUrl s \<noteq> DEFAULT_DATA_URL \<longrightarrow>
           (case tile_index_parquet b (tileIndexUrl DEFAULT_DATA_URL) of
              Some rows \<Rightarrow>
                dataUrl (fst (snd (initialize b s))) = DEFAULT_DATA_URL \<and>
                tileIndex (fst (snd (initialize b s))) = rows \<and>
                snd (snd (initialize b s)) =
                  [Install Spatial, Install H3, Install Fts,
                   ReadIndex (tileIndexUrl (dataUrl s)), ReadIndex (tileIndexUrl DEFAULT_DATA_URL),
                   ReadIndex (postcodeIndexUrl DEFAULT_DATA_URL)]
                  @ snd (createViews b (boundaryUrls DEFAULT_DATA_URL))
            | None \<Rightarrow>
                fst (initialize b s) = Inl TileIndexUnavailable \<and>
                snd (snd (initialize b s)) =
                  [Install Spatial, Install H3, Install Fts,
                   ReadIndex (tileIndexUrl (dataUrl s)), ReadIndex (tileIndexUrl DEFAULT_DATA_URL)])) \<and>
         (dataUrl s = DEFAULT_DATA_URL \<longrightarrow>
            fst (initialize b s) = Inl QueryFailed \<and>
            snd (snd (initialize b s)) =
              [Install Spatial, Install H3, Install Fts, ReadIndex (tileIndexUrl DEFAULT_DATA_URL)])"
  using assms
  by (auto simp: initialize_def loadTileIndex_def loadPostcodeIndex_def Let_def
      split: option.splits prod.splits sum.splits)

theorem initialize_fallback_witness:
  "dataUrl (fst (snd (initialize fallbackBackend (constructor (Some customUrl) None)))) = DEFAULT_DATA_URL \<and>
   tileIndex (fst (snd (initialize fallbackBackend (constructor (Some customUrl) None)))) = [riyadhTile] \<and>
   snd (snd (initialize fallbackBackend (constructor (Some customUrl) None))) =
     [Install Spatial, Install H3, Install Fts,
      ReadIndex (tileIndexUrl customUrl), ReadIndex (tileIndexUrl DEFAULT_DATA_URL),
      ReadIndex (postcodeIndexUrl DEFAULT_DATA_URL),
      CreateView (DEFAULT_DATA_URL @ ascii ''/world_countries_simple.parquet''),
      CreateView (DEFAULT_DATA_URL @ ascii ''/sa_regions_simple.parquet''),
      CreateView (DEFAULT_DATA_URL @ ascii ''/sa_districts_simple.parquet'')]"
  using initialize_fallback [of "constructor (Some customUrl) None" fallbackBackend]
  by (simp add: constructor_def fallbackBackend_def customUrl_not_default tileIndexUrl_eq_iff
      boundaryUrls_def)

text \<open>
  C10. On an initialized instance \<open>initialize\<close> returns at once: it sends nothing to the
  backend and leaves the whole instance (tile index, postcode index, ranked-search flag,
  base URL) as it is. In particular a call after a successful call does so, whatever
  the backend has become.
\<close>

theorem initialize_idempotent:
  "(initialized s \<longrightarrow> initialize b s = (Inr (), s, [])) \<and>
   (fst (initialize b s) = Inr () \<longrightarrow>
      initialize b' (fst (snd (initialize b s))) = (Inr (), fst (snd (initialize b s)), []))"
proof -
  have again: "initialize c t = (Inr (), t, [])" if "initialized t" for c t
    using that by (simp add: initialize_def)
  have "initialized (fst (snd (initialize b s)))" if "fst (initialize b s) = Inr ()"
    using that
    by (auto simp: initialize_def Let_def split: if_splits prod.splits sum.splits)
  with again show ?thesis by blast
qed

theorem initialize_idempotent_witness:
  "initialize fallbackBackend (fst (snd (initialize fallbackBackend (constructor None None)))) =
     (Inr (), fst (snd (initialize fallbackBackend (constructor None None))), [])"
proof -
  have "fst (initialize fallbackBackend (constructor None None)) = Inr ()"
    by (simp add: initialize_def constructor_def fallbackBackend_def loadTileIndex_def Let_def
        loadPostcodeIndex_def boundaryUrls_def)
  then show ?thesis
    using initialize_idempotent [of "constructor None None" fallbackBackend fallbackBackend]
    by blast
qed


section \<open>Properties of reverse geocoding\<close>

lemma cos_riyadh: "0 < cos (24.7136 * pi / 180)"
proof -
  have "24.7136 * pi / 180 < pi / 2" using pi_gt_zero by simp
  moreover have "- (pi / 2) < 24.7136 * pi / 180" using pi_gt_zero by simp
  ultimately show ?thesis by (rule cos_gt_zero_pi[rotated])
qed


lemmas reverse_defs =
  reverseGeocode_def ensureInitialized_def isInSaudiArabia_def orElse_def Let_def
  read_parquet_def nearbyQuery_def between_def mapResultsToGeocodingResult_def

lemmas row_defs =
  selectColumns_def storedColumns_def getField_def copyFields_def mapRow_def toNumber_def
  distance_m_def numKey_def keys_def

lemmas riyadh_defs =
  riyadhBackend_def riyadhSdk_def riyadhTile_def riyadhUrl_def addressAt_def constructor_def
  noOptions_def


lemma reverseGeocode_shape:
  assumes "fst (reverseGeocode b s lat lon opts) = Inr results"
  shows "\<exists>lonDelta latDelta rows.
           results = mapResultsToGeocodingResult
             (nearbyQuery (getColumnsForDetailLevel (orElse (detailLevel opts) Full)) lat lon
                lonDelta latDelta (orElse (limit opts) 10) rows)
             (orElse (detailLevel opts) Full)"
proof -
  let ?P = "\<lambda>res. \<exists>lonDelta latDelta rows.
           res = mapResultsToGeocodingResult
             (nearbyQuery (getColumnsForDetailLevel (orElse (detailLevel opts) Full)) lat lon
                lonDelta latDelta (orElse (limit opts) 10) rows)
             (orElse (detailLevel opts) Full)"
  have nil: "?P []"
    by (simp add: mapResultsToGeocodingResult_def nearbyQuery_def exI[where x="[]"])
  show ?thesis
    using assms nil
    by (auto simp: reverseGeocode_def Let_def
        split: sum.splits prod.splits option.splits if_splits)
qed

lemma getField_mapRow_distance: "getField (mapRow level r) Distance_m = getField r Distance_m"
  by (simp add: mapRow_def getField_def Let_def)

lemma getField_projected_distance:
  "getField (selectColumns (getColumnsForDetailLevel level) a @ [(Distance_m, v)]) Distance_m = v"
  by (cases level) (simp_all add: selectColumns_def storedColumns_def getField_def)

lemma distance_m_Num:
  "between (a Longitude) lo hi \<Longrightarrow> between (a Latitude) lo' hi' \<Longrightarrow>
   \<exists>d. distance_m lat lon a = Num d"
  by (auto simp: between_def distance_m_def split: val.splits)

text \<open>
  C3, as amended. Whenever \<open>reverseGeocode\<close> returns a list, the list has at most
  \<open>limit\<close> records (10 when no limit is given), every record carries a numeric
  \<open>distance_m\<close>, and the distances are in non-decreasing order. Nothing is stated about
  the order of records at the same distance.
\<close>

theorem reverseGeocode_sorted:
  assumes "fst (reverseGeocode b s lat lon opts) = Inr results"
  shows "length results \<le> orElse (limit opts) 10 \<and>
         (\<exists>ds. map (\<lambda>r. getField r Distance_m) results = map Num ds \<and> sorted ds)"
proof -
  define level where "level = orElse (detailLevel opts) Full"
  define project where
    "project = (\<lambda>a. selectColumns (getColumnsForDetailLevel level) a @ [(Distance_m, distance_m lat lon a)])"
  define key where "key = (\<lambda>r. numKey (getField r Distance_m))"
  from reverseGeocode_shape [OF assms] obtain lonDelta latDelta rows where
    res: "results = map (mapRow level)
            (take (orElse (limit opts) 10) (sort_key key
               (map project
                 (filter (\<lambda>a. between (a Longitude) (lon - lonDelta) (lon + lonDelta) \<and>
                               between (a Latitude) (lat - latDelta) (lat + latDelta)) rows))))"
    unfolding mapResultsToGeocodingResult_def nearbyQuery_def level_def project_def key_def
    by blast
  define sorted_rows where
    "sorted_rows = take (orElse (limit opts) 10) (sort_key key
               (map project
                 (filter (\<lambda>a. between (a Longitude) (lon - lonDelta) (lon + lonDelta) \<and>
                               between (a Latitude) (lat - latDelta) (lat + latDelta)) rows)))"
  have len: "length results \<le> orElse (limit opts) 10"
    by (simp add: res)
  have dist: "map (\<lambda>r. getField r Distance_m) results = map (\<lambda>r. getField r Distance_m) sorted_rows"
    by (simp add: res sorted_rows_def getField_mapRow_distance)
  have "sorted (map key (sort_key key xs))" for xs :: "obj list"
    by (rule sorted_sort_key)
  then have srt: "sorted (map key sorted_rows)"
    unfolding sorted_rows_def by (simp add: take_map [symmetric] sorted_wrt_take)
  have num: "\<exists>d. getField r Distance_m = Num d" if "r \<in> set sorted_rows" for r
  proof -
    from that have "r \<in> set (map project
                 (filter (\<lambda>a. between (a Longitude) (lon - lonDelta) (lon + lonDelta) \<and>
                               between (a Latitude) (lat - latDelta) (lat + latDelta)) rows))"
      unfolding sorted_rows_def by (auto dest: in_set_takeD)
    then obtain a where "r = project a"
      and "between (a Longitude) (lon - lonDelta) (lon + lonDelta)"
      and "between (a Latitude) (lat - latDelta) (lat + latDelta)"
      by auto
    then show ?thesis
      using distance_m_Num [of a _ _ _ _ lat lon]
      by (auto simp: project_def getField_projected_distance)
  qed
  define ds where "ds = map (\<lambda>r. snd (key r)) sorted_rows"
  have key_num: "key r = (False, snd (key r)) \<and> getField r Distance_m = Num (snd (key r))"
    if "r \<in> set sorted_rows" for r
    using num [OF that] by (auto simp: key_def numKey_def)
  have keys_eq: "map key sorted_rows = map (\<lambda>d. (False, d)) ds"
    using key_num by (simp add: ds_def)
  have "map (\<lambda>r. getField r Distance_m) sorted_rows = map Num ds"
    using key_num by (simp add: ds_def)
  moreover have "sorted ds"
    using srt unfolding keys_eq by (simp add: sorted_wrt_map less_eq_prod_def sorted_wrt_iff_nth_less)
  ultimately show ?thesis using len dist by auto
qed

text \<open>
  C3, as stated, fails: two addresses at the query point, stored with id 2 before id 1,
  are at distance 0 both and come back in the stored order, not by ascending id.
\<close>

theorem reverseGeocode_tie_counterexample:
  "map_sum id (map (\<lambda>r. (getField r Addr_id, getField r Distance_m)))
     (fst (reverseGeocode riyadhBackend riyadhSdk 24.7136 46.6753 noOptions)) =
   Inr [(Num 2, Num 0), (Num 1, Num 0)]"
  using cos_riyadh
  by (simp add: reverse_defs row_defs riyadh_defs haversine_def less_imp_le)


text \<open>Along a meridian, northwards, the distance of the statement is the arc.\<close>

lemma haversine_meridian:
  assumes "lat \<le> latitude" and "latitude - lat \<le> 180"
  shows "haversine lat lon latitude lon = 6371000 * (latitude - lat) * pi / 180"
proof -
  define x where "x = (radians latitude - radians lat) / 2"
  have xe: "x = (latitude - lat) * pi / 360"
    by (simp add: x_def radians_def field_simps)
  have "(latitude - lat) * pi \<le> 180 * pi"
    using assms by (intro mult_right_mono) auto
  then have "x \<le> pi / 2" unfolding xe by simp
  moreover have "0 \<le> x" unfolding xe using assms by simp
  ultimately have x: "0 \<le> x" "x \<le> pi / 2" by simp_all
  then have "0 \<le> sin x"
    by (intro sin_ge_zero) (use pi_gt_zero in linarith)+
  then have "sqrt ((sin x)\<^sup>2) = sin x" by simp
  moreover have "arcsin (sin x) = x"
    using x by (intro arcsin_sin) (use pi_gt_zero in linarith)+
  ultimately have "haversine lat lon latitude lon = 6371000 * 2 * x"
    by (simp add: haversine_def x_def)
  then show ?thesis by (simp add: x_def radians_def field_simps)
qed

text \<open>Three addresses north of the query point, stored at 0.002, 0.005 and 0.001 degrees
  from it, with a limit of 2: the two nearest come back, nearest first.\<close>

lemma spread_call:
  "map_sum id (map (\<lambda>r. (getField r Addr_id, getField r Distance_m)))
     (fst (reverseGeocode spreadBackend riyadhSdk 24.7136 46.6753 (noOptions\<lparr>limit := Some 2\<rparr>))) =
   Inr [(Num 3, Num (6371 * pi / 180)), (Num 1, Num (6371 * pi / 90))]"
  using cos_riyadh
  by (simp add: reverse_defs row_defs riyadh_defs spreadBackend_def haversine_meridian less_imp_le)

theorem reverseGeocode_sorted_witness:
  "\<exists>results.
     fst (reverseGeocode spreadBackend riyadhSdk 24.7136 46.6753 (noOptions\<lparr>limit := Some 2\<rparr>)) =
       Inr results \<and>
     map (\<lambda>r. (getField r Addr_id, getField r Distance_m)) results =
       [(Num 3, Num (6371 * pi / 180)), (Num 1, Num (6371 * pi / 90))] \<and>
     length results \<le> 2 \<and>
     (\<exists>ds. map (\<lambda>r. getField r Distance_m) results = map Num ds \<and> sorted ds)"
proof -
  obtain results where
    res: "fst (reverseGeocode spreadBackend riyadhSdk 24.7136 46.6753
                 (noOptions\<lparr>limit := Some 2\<rparr>)) = Inr results"
    and rows: "map (\<lambda>r. (getField r Addr_id, getField r Distance_m)) results =
       [(Num 3, Num (6371 * pi / 180)), (Num 1, Num (6371 * pi / 90))]"
    using spread_call by (cases "fst (reverseGeocode spreadBackend riyadhSdk 24.7136 46.6753
                 (noOptions\<lparr>limit := Some 2\<rparr>))") auto
  from reverseGeocode_sorted [OF res] res rows show ?thesis
    by (auto simp: noOptions_def orElse_def)
qed

text \<open>
  C5. When the country gate answers that the point is outside, \<open>reverseGeocode\<close> returns
  the empty list without an error, leaves the instance as it is, and has sent nothing
  but the country lookup of the gate: no tile is read. A point outside the box
  34.5..55.7 by 16.3..32.2 is answered by the gate without any backend call, and then
  \<open>reverseGeocode\<close> sends nothing at all.
\<close>

theorem reverseGeocode_outside:
  "(fst (isInSaudiArabia b s lat lon) = Inr False \<longrightarrow>
      fst (reverseGeocode b s lat lon opts) = Inr [] \<and>
      fst (snd (reverseGeocode b s lat lon opts)) = s \<and>
      set (snd (snd (reverseGeocode b s lat lon opts))) \<subseteq> {CountryLookup lat lon}) \<and>
   (initialized s \<and> conn s \<and> (lon < 34.5 \<or> lon > 55.7 \<or> lat < 16.3 \<or> lat > 32.2) \<longrightarrow>
      isInSaudiArabia b s lat lon = (Inr False, []) \<and>
      reverseGeocode b s lat lon opts = (Inr [], s, []))"
  by (auto simp: reverseGeocode_def isInSaudiArabia_def ensureInitialized_def
      split: sum.splits option.splits if_splits)

theorem reverseGeocode_outside_witness:
  "isInSaudiArabia riyadhBackend riyadhSdk 0 0 = (Inr False, []) \<and>
   reverseGeocode riyadhBackend riyadhSdk 0 0 noOptions = (Inr [], riyadhSdk, [])"
  using reverseGeocode_outside [of riyadhBackend riyadhSdk 0 0 noOptions]
  by (simp add: riyadhSdk_def)

lemma read_files_missing:
  "u \<in> set urls \<Longrightarrow> tile_parquet b u = None \<Longrightarrow> read_files b urls = None"
  by (induction urls) (auto split: option.splits)

lemma read_parquet_missing:
  "u \<in> set urls \<Longrightarrow> tile_parquet b u = None \<Longrightarrow> read_parquet b urls = None"
  by (simp add: read_parquet_def read_files_missing)

lemma reverseGeocode_read_fails:
  assumes "ReadTiles urls \<in> set (snd (snd (reverseGeocode b s lat lon opts)))"
    and "read_parquet b urls = None"
  shows "reverseGeocode b s lat lon opts = (Inl QueryFailed, s, snd (snd (reverseGeocode b s lat lon opts)))"
  using assms
  by (auto simp: reverseGeocode_def isInSaudiArabia_def Let_def
      split: sum.splits option.splits if_splits)

lemma geocode_read_fails:
  assumes "ReadTiles urls \<in> set (snd (snd (geocode b s address opts)))"
    and "read_parquet b urls = None"
  shows "geocode b s address opts = (Inl QueryFailed, s, snd (snd (geocode b s address opts)))"
  using assms
  by (auto simp: geocode_def ftsQuery_def Let_def
      split: sum.splits option.splits if_splits)


lemma searchByPostcode_read_fails:
  assumes "ReadTiles urls \<in> set (snd (snd (searchByPostcode b s code opts)))"
    and "read_parquet b urls = None"
  shows "searchByPostcode b s code opts = (Inl QueryFailed, s, snd (snd (searchByPostcode b s code opts)))"
  using assms
  by (auto simp: searchByPostcode_def Let_def
      split: sum.splits option.splits if_splits)

text \<open>
  C2, as amended. An operation reads all its candidate tiles in one statement. When a
  tile of that statement cannot be read, the statement is rejected and the operation
  (\<open>reverseGeocode\<close>, \<open>geocode\<close>, \<open>searchByPostcode\<close>) raises the error: it returns no
  rows, whatever the other tiles hold.
\<close>

theorem partition_failure_aborts:
  assumes "u \<in> set urls" and "tile_parquet b u = None"
  shows "(ReadTiles urls \<in> set (snd (snd (reverseGeocode b s lat lon opts))) \<longrightarrow>
            fst (reverseGeocode b s lat lon opts) = Inl QueryFailed) \<and>
         (ReadTiles urls \<in> set (snd (snd (geocode b s address opts))) \<longrightarrow>
            fst (geocode b s address opts) = Inl QueryFailed) \<and>
         (ReadTiles urls \<in> set (snd (snd (searchByPostcode b s code opts))) \<longrightarrow>
            fst (searchByPostcode b s code opts) = Inl QueryFailed)"
proof -
  have none: "read_parquet b urls = None"
    using assms by (rule read_parquet_missing)
  show ?thesis
    using reverseGeocode_read_fails [OF _ none, of s lat lon opts]
      geocode_read_fails [OF _ none, of s address opts]
      searchByPostcode_read_fails [OF _ none, of s code opts]
    by (metis fst_conv)
qed

lemma neighbor_missing:
  "fst (reverseGeocode riyadhBackend twoTileSdk 24.7136 46.6753
          (noOptions\<lparr>includeNeighbors := Some True\<rparr>)) = Inl QueryFailed \<and>
   snd (snd (reverseGeocode riyadhBackend twoTileSdk 24.7136 46.6753
          (noOptions\<lparr>includeNeighbors := Some True\<rparr>))) =
     [CountryLookup 24.7136 46.6753, CellLookup 24.7136 46.6753, DiskLookup (ascii ''8553a6d3fffffff''),
      ReadTiles [riyadhUrl, riyadhUrl, tileUrl DEFAULT_DATA_URL (ascii ''8553a6d7fffffff'')]] \<and>
   map_sum id (map (\<lambda>r. getField r Addr_id))
     (fst (reverseGeocode riyadhBackend twoTileSdk 24.7136 46.6753 noOptions)) = Inr [Num 2, Num 1]"
  using cos_riyadh
  by (simp add: reverse_defs row_defs riyadh_defs twoTileSdk_def neighborTile_def haversine_def
      less_imp_le tileUrl_def ascii_def)

text \<open>
  C2, as stated, fails: with \<open>includeNeighbors\<close>, the tile of the point is readable and
  holds two addresses, the neighbouring tile cannot be read, and the call raises the
  error instead of returning the two addresses, which the call without neighbours does.
\<close>

theorem partition_failure_counterexample:
  "fst (reverseGeocode riyadhBackend twoTileSdk 24.7136 46.6753
          (noOptions\<lparr>includeNeighbors := Some True\<rparr>)) = Inl QueryFailed \<and>
   tile_parquet riyadhBackend riyadhUrl =
     Some [addressAt 2 24.7136 46.6753, addressAt 1 24.7136 46.6753] \<and>
   map_sum id (map (\<lambda>r. getField r Addr_id))
     (fst (reverseGeocode riyadhBackend twoTileSdk 24.7136 46.6753 noOptions)) = Inr [Num 2, Num 1]"
  using neighbor_missing by (simp add: riyadhBackend_def)

theorem partition_failure_aborts_witness:
  "fst (reverseGeocode riyadhBackend twoTileSdk 24.7136 46.6753
          (noOptions\<lparr>includeNeighbors := Some True\<rparr>)) = Inl QueryFailed \<and>
   fst (geocode fallbackBackend riyadhSdk (ascii ''olaya'') noOptions) = Inl QueryFailed \<and>
   fst (searchByPostcode fallbackBackend postcodeSdk (ascii ''13847'') noOptions) = Inl QueryFailed"
proof -
  let ?u = "tileUrl DEFAULT_DATA_URL (ascii ''8553a6d7fffffff'')"
  have missing: "tile_parquet riyadhBackend ?u = None"
    by (simp add: riyadhBackend_def riyadhUrl_def tileUrl_def ascii_def)
  have sent: "ReadTiles [riyadhUrl, riyadhUrl, ?u] \<in>
      set (snd (snd (reverseGeocode riyadhBackend twoTileSdk 24.7136 46.6753
          (noOptions\<lparr>includeNeighbors := Some True\<rparr>))))"
    using neighbor_missing by simp
  have "?u \<in> set [riyadhUrl, riyadhUrl, ?u]" by simp
  from partition_failure_aborts [OF this missing] sent
  have reverse: "fst (reverseGeocode riyadhBackend twoTileSdk 24.7136 46.6753
          (noOptions\<lparr>includeNeighbors := Some True\<rparr>)) = Inl QueryFailed"
    by blast
  have gone: "tile_parquet fallbackBackend riyadhUrl = None"
    by (simp add: fallbackBackend_def)
  have one: "riyadhUrl \<in> set [riyadhUrl]" by simp
  have sent_text: "ReadTiles [riyadhUrl] \<in>
      set (snd (snd (geocode fallbackBackend riyadhSdk (ascii ''olaya'') noOptions)))"
    by (simp add: geocode_def ensureInitialized_def orElse_def Let_def truthy_def present_def
        read_parquet_def candidateTiles_def capTiles_def MAX_TILES_def fallbackBackend_def
        riyadh_defs)
  have sent_code: "ReadTiles [riyadhUrl] \<in>
      set (snd (snd (searchByPostcode fallbackBackend postcodeSdk (ascii ''13847'') noOptions)))"
    by (simp add: searchByPostcode_def ensureInitialized_def orElse_def Let_def truthy_def
        read_parquet_def toWesternDigits_def arabicDigit_def persianDigit_def trim_def
        isWhiteSpace_def fallbackBackend_def postcodeSdk_def riyadh_defs ascii_def)
  from partition_failure_aborts [OF one gone, where s = riyadhSdk] sent_text
  have forward: "fst (geocode fallbackBackend riyadhSdk (ascii ''olaya'') noOptions) = Inl QueryFailed"
    by blast
  from partition_failure_aborts [OF one gone, where s = postcodeSdk] sent_code
  have lookup: "fst (searchByPostcode fallbackBackend postcodeSdk (ascii ''13847'') noOptions) =
      Inl QueryFailed"
    by blast
  from reverse forward lookup show ?thesis by blast
qed

lemma keys_mapRow: "keys (mapRow level r) = resultKeys level"
  by (simp add: resultKeys_def mapRow_def keys_def copyFields_def Let_def)

text \<open>
  C8. Every record \<open>reverseGeocode\<close> returns has exactly the keys of its detail level
  (\<open>full\<close> when none is given); for \<open>minimal\<close> these are \<open>addr_id\<close>, \<open>longitude\<close>, \<open>latitude\<close>
  and \<open>distance_m\<close>; and the key sets grow strictly from \<open>minimal\<close> to \<open>postcode\<close> to
  \<open>region\<close> to \<open>full\<close>.
\<close>

theorem detail_level_fields:
  "(fst (reverseGeocode b s lat lon opts) = Inr results \<longrightarrow>
      (\<forall>r \<in> set results. keys r = resultKeys (orElse (detailLevel opts) Full))) \<and>
   resultKeys Minimal = [Addr_id, Longitude, Latitude, Distance_m] \<and>
   set (resultKeys Minimal) \<subset> set (resultKeys PostcodeDetail) \<and>
   set (resultKeys PostcodeDetail) \<subset> set (resultKeys RegionDetail) \<and>
   set (resultKeys RegionDetail) \<subset> set (resultKeys Full)"
proof -
  have "\<forall>r \<in> set results. keys r = resultKeys (orElse (detailLevel opts) Full)"
    if "fst (reverseGeocode b s lat lon opts) = Inr results"
    using reverseGeocode_shape [OF that]
    by (auto simp: mapResultsToGeocodingResult_def keys_mapRow)
  moreover have "resultKeys Minimal = [Addr_id, Longitude, Latitude, Distance_m]"
    by (simp add: resultKeys_def mapRow_def keys_def)
  moreover have "set (resultKeys Minimal) \<subset> set (resultKeys PostcodeDetail)"
    by (auto simp: resultKeys_def mapRow_def keys_def copyFields_def)
  moreover have "set (resultKeys PostcodeDetail) \<subset> set (resultKeys RegionDetail)"
    by (auto simp: resultKeys_def mapRow_def keys_def copyFields_def)
  moreover have "set (resultKeys RegionDetail) \<subset> set (resultKeys Full)"
    by (auto simp: resultKeys_def mapRow_def keys_def copyFields_def)
  ultimately show ?thesis by blast
qed

theorem detail_level_fields_witness:
  "\<exists>results. fst (reverseGeocode riyadhBackend riyadhSdk 24.7136 46.6753
       (noOptions\<lparr>detailLevel := Some Minimal\<rparr>)) = Inr results \<and> length results = 2 \<and>
     (\<forall>r \<in> set results. keys r = [Addr_id, Longitude, Latitude, Distance_m])"
proof -
  obtain results where
    res: "fst (reverseGeocode riyadhBackend riyadhSdk 24.7136 46.6753
       (noOptions\<lparr>detailLevel := Some Minimal\<rparr>)) = Inr results"
    and two: "length results = 2"
    using cos_riyadh
    by (simp add: reverse_defs riyadh_defs less_imp_le)
  from detail_level_fields [of riyadhBackend riyadhSdk "24.7136" "46.6753"
       "noOptions\<lparr>detailLevel := Some Minimal\<rparr>" results] res two
  show ?thesis by (simp add: noOptions_def orElse_def)
qed

section \<open>Properties of the postcode search\<close>

lemmas postcode_defs =
  searchByPostcode_def ensureInitialized_def orElse_def Let_def truthy_def read_parquet_def
  postcodeQuery_def searchResult_def searchColumns_def strKey_def
  toWesternDigits_def arabicDigit_def persianDigit_def trim_def isWhiteSpace_def
  escapeQuotes_def apostrophe_def

lemmas postcode_data =
  postcodeBackend_def postcodeSdk_def postcodeAddress_def





text \<open>
  C1, evaluated. The three spellings of 13847 normalize to the same string, and the
  index is looked up under it; but the statement compares the \<open>postcode\<close> column with the
  argument as it was given. With Arabic-Indic or Persian digits the tile of the entry
  is read and no stored row matches: the result is empty, while the Western spelling
  finds the two addresses.
\<close>

theorem searchByPostcode_arabic_digits:
  "toWesternDigits [0x661, 0x663, 0x668, 0x664, 0x667] = ascii ''13847'' \<and>
   toWesternDigits [0x6F1, 0x6F3, 0x6F8, 0x6F4, 0x6F7] = ascii ''13847'' \<and>
   map_sum id (map (\<lambda>r. (getField r Addr_id, getField r Postcode)))
     (fst (searchByPostcode postcodeBackend postcodeSdk (ascii ''13847'') noOptions)) =
     Inr [(Num 8, Str (ascii ''13847'')), (Num 7, Str (ascii ''13847''))] \<and>
   searchByPostcode postcodeBackend postcodeSdk [0x661, 0x663, 0x668, 0x664, 0x667] noOptions =
     (Inr [], postcodeSdk, [ReadTiles [riyadhUrl]]) \<and>
   searchByPostcode postcodeBackend postcodeSdk [0x6F1, 0x6F3, 0x6F8, 0x6F4, 0x6F7] noOptions =
     (Inr [], postcodeSdk, [ReadTiles [riyadhUrl]])"
  by (simp add: postcode_defs postcode_data riyadh_defs row_defs ascii_def)







section \<open>Properties of forward geocoding\<close>

lemma multiples_count:
  assumes "0 < k" and "n \<le> m * k"
  shows "length (filter (\<lambda>i. i mod k = 0) [0..<n]) \<le> m"
proof -
  have "{i. i < n \<and> [0..<n] ! i mod k = 0} = {i. i < n \<and> i mod k = 0}"
    by auto
  then have "length (filter (\<lambda>i. i mod k = 0) [0..<n]) = card {i. i < n \<and> i mod k = 0}"
    by (simp add: length_filter_conv_card)
  also have "{i. i < n \<and> i mod k = 0} \<subseteq> (\<lambda>j. j * k) ` {..<m}"
  proof
    fix i assume "i \<in> {i. i < n \<and> i mod k = 0}"
    then have i: "i < n" "i mod k = 0" by auto
    then have "i = (i div k) * k" by auto
    moreover from i assms have "i div k < m"
      by (metis less_le_trans less_mult_imp_div_less)
    ultimately show "i \<in> (\<lambda>j. j * k) ` {..<m}" by blast
  qed
  then have "card {i. i < n \<and> i mod k = 0} \<le> card ((\<lambda>j. j * k) ` {..<m})"
    by (simp add: card_mono)
  also have "\<dots> \<le> card {..<m}" by (rule card_image_le) simp
  finally show ?thesis by simp
qed

lemma enumerate_filter_index:
  "map snd (filter (\<lambda>(i, t). P i) (enumerate 0 xs)) =
   map (\<lambda>i. xs ! i) (filter P [0..<length xs])"
proof (induction xs rule: rev_induct)
  case Nil
  then show ?case by simp
next
  case (snoc x xs)
  have "map (\<lambda>i. (xs @ [x]) ! i) (filter P [0..<length xs]) =
        map (\<lambda>i. xs ! i) (filter P [0..<length xs])"
    by (rule map_cong) (auto simp: nth_append)
  with snoc show ?case
    by (simp add: enumerate_append_eq)
qed

lemma step_bounds:
  assumes "MAX_TILES < n"
  shows "0 < nat \<lceil>real n / real MAX_TILES\<rceil>" and "n \<le> MAX_TILES * nat \<lceil>real n / real MAX_TILES\<rceil>"
proof -
  have pos: "0 < real n / real MAX_TILES" using assms by (simp add: MAX_TILES_def)
  then show "0 < nat \<lceil>real n / real MAX_TILES\<rceil>" by simp
  have "real n / real MAX_TILES \<le> real_of_int \<lceil>real n / real MAX_TILES\<rceil>" by (rule le_of_int_ceiling)
  then have "real n \<le> real MAX_TILES * real_of_int \<lceil>real n / real MAX_TILES\<rceil>"
    unfolding MAX_TILES_def by simp linarith
  also have "real_of_int \<lceil>real n / real MAX_TILES\<rceil> = real (nat \<lceil>real n / real MAX_TILES\<rceil>)"
    using pos by simp
  finally have "real n \<le> real (MAX_TILES * nat \<lceil>real n / real MAX_TILES\<rceil>)" by simp
  then show "n \<le> MAX_TILES * nat \<lceil>real n / real MAX_TILES\<rceil>" by linarith
qed

lemma capTiles_unfiltered:
  assumes "MAX_TILES < length ts"
  shows "capTiles False ts =
           map (\<lambda>i. ts ! i) (filter (\<lambda>i. i mod nat \<lceil>real (length ts) / real MAX_TILES\<rceil> = 0) [0..<length ts])"
    and "length (capTiles False ts) \<le> MAX_TILES"
proof -
  let ?step = "nat \<lceil>real (length ts) / real MAX_TILES\<rceil>"
  let ?sample = "map (\<lambda>i. ts ! i) (filter (\<lambda>i. i mod ?step = 0) [0..<length ts])"
  have len: "length ?sample \<le> MAX_TILES"
    using multiples_count [OF step_bounds(1) [OF assms], of "length ts" MAX_TILES] step_bounds(2) [OF assms]
    by simp
  have "capTiles False ts = take MAX_TILES ?sample"
    using assms by (simp add: capTiles_def Let_def enumerate_filter_index)
  with len show "capTiles False ts = ?sample" by simp
  with len show "length (capTiles False ts) \<le> MAX_TILES" by simp
qed

lemma sorted_take_drop:
  assumes "sorted (map f xs)"
  shows "\<forall>a \<in> set (take n xs). \<forall>c \<in> set (drop n xs). f a \<le> f c"
proof -
  have "sorted (map f (take n xs) @ map f (drop n xs))"
    using assms by (metis append_take_drop_id map_append)
  then show ?thesis by (auto simp: sorted_append)
qed

lemma capTiles_filtered:
  assumes "MAX_TILES < length ts"
  shows "capTiles True ts = take MAX_TILES (sort_key file_size_kb ts)"
    and "length (capTiles True ts) = MAX_TILES"
    and "mset (capTiles True ts) + mset (drop MAX_TILES (sort_key file_size_kb ts)) = mset ts"
    and "\<forall>k \<in> set (capTiles True ts). \<forall>d \<in> set (drop MAX_TILES (sort_key file_size_kb ts)).
           file_size_kb k \<le> file_size_kb d"
proof -
  let ?sorted = "sort_key file_size_kb ts"
  show eq: "capTiles True ts = take MAX_TILES ?sorted"
    using assms by (simp add: capTiles_def)
  show "length (capTiles True ts) = MAX_TILES"
    using assms by (simp add: eq)
  have "mset (take MAX_TILES ?sorted) + mset (drop MAX_TILES ?sorted) = mset ?sorted"
    by (metis append_take_drop_id mset_append)
  then show "mset (capTiles True ts) + mset (drop MAX_TILES ?sorted) = mset ts"
    by (simp add: eq)
  have "sorted (map file_size_kb ?sorted)"
    by (rule sorted_sort_key)
  from sorted_take_drop [OF this, of MAX_TILES] show "\<forall>k \<in> set (capTiles True ts). \<forall>d \<in> set (drop MAX_TILES ?sorted).
           file_size_kb k \<le> file_size_kb d"
    unfolding eq .
qed

lemma length_capTiles: "length (capTiles filtered ts) \<le> MAX_TILES"
proof (cases "MAX_TILES < length ts")
  case True
  then show ?thesis
    using capTiles_unfiltered(2) [OF True] capTiles_filtered(2) [OF True]
    by (cases filtered) simp_all
next
  case False
  then show ?thesis by (simp add: capTiles_def)
qed

lemma geocode_requests:
  assumes "ReadTiles urls \<in> set (snd (snd (geocode b s address opts)))"
  shows "urls = map (\<lambda>t. tileUrl (dataUrl s) (h3_tile t))
           (capTiles (present (bbox opts) \<or> truthy (region opts)) (candidateTiles s opts))"
  using assms
  by (auto simp: geocode_def Let_def split: sum.splits option.splits if_splits)


lemma geocode_sends:
  assumes "initialized s" and "conn s" and "candidateTiles s opts \<noteq> []"
  shows "ReadTiles (map (\<lambda>t. tileUrl (dataUrl s) (h3_tile t))
           (capTiles (present (bbox opts) \<or> truthy (region opts)) (candidateTiles s opts)))
         \<in> set (snd (snd (geocode b s address opts)))"
  using assms
  by (auto simp: geocode_def ensureInitialized_def Let_def split: sum.splits option.splits)

text \<open>
  C6. When \<open>geocode\<close> has more than 50 candidate tiles: with a bbox or region filter the
  tiles kept are the first 50 of the candidates sorted by file size, that is 50 tiles,
  none of them larger than any tile left out, kept and left out together being the
  candidates; without a filter the tiles kept are exactly the candidates at the indices
  that are multiples of \<open>ceil(length / 50)\<close>. On an initialized instance \<open>geocode\<close> does
  send the read of the files of the tiles kept, and every read it sends is that one:
  at most 50 files.
\<close>

theorem geocode_tile_cap:
  assumes "MAX_TILES < length (candidateTiles s opts)"
  shows "MAX_TILES = 50 \<and>
    (present (bbox opts) \<or> truthy (region opts) \<longrightarrow>
       capTiles True (candidateTiles s opts) =
         take MAX_TILES (sort_key file_size_kb (candidateTiles s opts)) \<and>
       length (capTiles True (candidateTiles s opts)) = MAX_TILES \<and>
       mset (capTiles True (candidateTiles s opts)) +
         mset (drop MAX_TILES (sort_key file_size_kb (candidateTiles s opts))) =
         mset (candidateTiles s opts) \<and>
       (\<forall>k \<in> set (capTiles True (candidateTiles s opts)).
          \<forall>d \<in> set (drop MAX_TILES (sort_key file_size_kb (candidateTiles s opts))).
            file_size_kb k \<le> file_size_kb d)) \<and>
    (\<not> (present (bbox opts) \<or> truthy (region opts)) \<longrightarrow>
       capTiles False (candidateTiles s opts) =
         map (\<lambda>i. candidateTiles s opts ! i)
           (filter (\<lambda>i. i mod nat \<lceil>real (length (candidateTiles s opts)) / real MAX_TILES\<rceil> = 0)
              [0..<length (candidateTiles s opts)])) \<and>
    (\<forall>urls. ReadTiles urls \<in> set (snd (snd (geocode b s address opts))) \<longrightarrow>
       urls = map (\<lambda>t. tileUrl (dataUrl s) (h3_tile t))
                (capTiles (present (bbox opts) \<or> truthy (region opts)) (candidateTiles s opts)) \<and>
       length urls \<le> MAX_TILES) \<and>
    (initialized s \<and> conn s \<longrightarrow>
       ReadTiles (map (\<lambda>t. tileUrl (dataUrl s) (h3_tile t))
                    (capTiles (present (bbox opts) \<or> truthy (region opts)) (candidateTiles s opts)))
         \<in> set (snd (snd (geocode b s address opts))))"
proof -
  have ne: "candidateTiles s opts \<noteq> []"
    using assms by auto
  have live: "ReadTiles (map (\<lambda>t. tileUrl (dataUrl s) (h3_tile t))
                    (capTiles (present (bbox opts) \<or> truthy (region opts)) (candidateTiles s opts)))
         \<in> set (snd (snd (geocode b s address opts)))" if "initialized s" and "conn s"
    using that ne by (rule geocode_sends)
  have sent: "urls = map (\<lambda>t. tileUrl (dataUrl s) (h3_tile t))
                (capTiles (present (bbox opts) \<or> truthy (region opts)) (candidateTiles s opts)) \<and>
       length urls \<le> MAX_TILES"
    if "ReadTiles urls \<in> set (snd (snd (geocode b s address opts)))" for urls
  proof -
    from geocode_requests [OF that]
    have eq: "urls = map (\<lambda>t. tileUrl (dataUrl s) (h3_tile t))
                (capTiles (present (bbox opts) \<or> truthy (region opts)) (candidateTiles s opts))" .
    have "length urls \<le> MAX_TILES"
      unfolding eq by (simp only: length_map length_capTiles)
    with eq show ?thesis by blast
  qed
  show ?thesis
    using capTiles_filtered [OF assms] capTiles_unfiltered(1) [OF assms] sent live
    by (simp add: MAX_TILES_def)
qed

lemma many_candidates:
  "candidateTiles manySdk noOptions = map sizedTile [0..<120]"
  "candidateTiles manySdk (noOptions\<lparr>region := Some (ascii ''Riyadh Region'')\<rparr>) = map sizedTile [0..<120]"
  by (simp_all add: candidateTiles_def manySdk_def noOptions_def truthy_def ascii_def orElse_def
      inRegion_def sizedTile_def filter_map comp_def)

theorem geocode_tile_cap_witness:
  "capTiles False (map sizedTile [0..<120]) =
     map (\<lambda>i. map sizedTile [0..<120] ! i) (filter (\<lambda>i. i mod 3 = 0) [0..<120]) \<and>
   length (capTiles True (map sizedTile [0..<120])) = 50 \<and>
   ReadTiles (map (\<lambda>t. tileUrl (dataUrl manySdk) (h3_tile t))
                (capTiles False (map sizedTile [0..<120])))
     \<in> set (snd (snd (geocode riyadhBackend manySdk (ascii ''olaya'') noOptions))) \<and>
   ReadTiles (map (\<lambda>t. tileUrl (dataUrl manySdk) (h3_tile t))
                (capTiles True (map sizedTile [0..<120])))
     \<in> set (snd (snd (geocode riyadhBackend manySdk (ascii ''olaya'')
                          (noOptions\<lparr>region := Some (ascii ''Riyadh Region'')\<rparr>))))"
proof -
  have big: "MAX_TILES < length (candidateTiles manySdk noOptions)"
    "MAX_TILES < length (candidateTiles manySdk (noOptions\<lparr>region := Some (ascii ''Riyadh Region'')\<rparr>))"
    by (simp_all add: many_candidates MAX_TILES_def)
  have init: "initialized manySdk" "conn manySdk"
    by (simp_all add: manySdk_def riyadhSdk_def)
  have step: "nat \<lceil>120 / real MAX_TILES\<rceil> = 3"
    by (simp add: MAX_TILES_def)
  have filtered: "truthy (region (noOptions\<lparr>region := Some (ascii ''Riyadh Region'')\<rparr>))"
    by (simp add: truthy_def ascii_def)
  have plain: "\<not> present (bbox noOptions)" "\<not> truthy (region noOptions)"
    by (simp_all add: noOptions_def truthy_def present_def)
  have flagged: "(present (bbox (noOptions\<lparr>region := Some (ascii ''Riyadh Region'')\<rparr>)) \<or>
      truthy (region (noOptions\<lparr>region := Some (ascii ''Riyadh Region'')\<rparr>))) = True"
    using filtered by simp
  have unflagged: "(present (bbox noOptions) \<or> truthy (region noOptions)) = False"
    using plain by simp
  from geocode_tile_cap [OF big(2), where b = riyadhBackend and address = "ascii ''olaya''"] init
  have "length (capTiles True
           (candidateTiles manySdk (noOptions\<lparr>region := Some (ascii ''Riyadh Region'')\<rparr>))) = MAX_TILES \<and>
     ReadTiles (map (\<lambda>t. tileUrl (dataUrl manySdk) (h3_tile t))
                (capTiles True
                   (candidateTiles manySdk (noOptions\<lparr>region := Some (ascii ''Riyadh Region'')\<rparr>))))
     \<in> set (snd (snd (geocode riyadhBackend manySdk (ascii ''olaya'')
                          (noOptions\<lparr>region := Some (ascii ''Riyadh Region'')\<rparr>))))"
    unfolding flagged by blast
  then have kept: "length (capTiles True (map sizedTile [0..<120])) = 50 \<and>
     ReadTiles (map (\<lambda>t. tileUrl (dataUrl manySdk) (h3_tile t))
                (capTiles True (map sizedTile [0..<120])))
     \<in> set (snd (snd (geocode riyadhBackend manySdk (ascii ''olaya'')
                          (noOptions\<lparr>region := Some (ascii ''Riyadh Region'')\<rparr>))))"
    by (simp only: many_candidates MAX_TILES_def)
  from geocode_tile_cap [OF big(1), where b = riyadhBackend and address = "ascii ''olaya''"] init
  have "capTiles False (candidateTiles manySdk noOptions) =
         map (\<lambda>i. candidateTiles manySdk noOptions ! i)
           (filter (\<lambda>i. i mod nat \<lceil>real (length (candidateTiles manySdk noOptions)) / real MAX_TILES\<rceil> = 0)
              [0..<length (candidateTiles manySdk noOptions)]) \<and>
     ReadTiles (map (\<lambda>t. tileUrl (dataUrl manySdk) (h3_tile t))
                (capTiles False (candidateTiles manySdk noOptions)))
     \<in> set (snd (snd (geocode riyadhBackend manySdk (ascii ''olaya'') noOptions)))"
    unfolding unflagged by blast
  then have raw: "capTiles False (map sizedTile [0..<120]) =
         map (\<lambda>i. map sizedTile [0..<120] ! i)
           (filter (\<lambda>i. i mod nat \<lceil>real (length (map sizedTile [0..<120])) / real MAX_TILES\<rceil> = 0)
              [0..<length (map sizedTile [0..<120])]) \<and>
     ReadTiles (map (\<lambda>t. tileUrl (dataUrl manySdk) (h3_tile t))
                (capTiles False (map sizedTile [0..<120])))
     \<in> set (snd (snd (geocode riyadhBackend manySdk (ascii ''olaya'') noOptions)))"
    unfolding many_candidates .
  then have "capTiles False (map sizedTile [0..<120]) =
     map (\<lambda>i. map sizedTile [0..<120] ! i) (filter (\<lambda>i. i mod 3 = 0) [0..<120])"
    by (simp add: step del: upt.simps)
  with raw kept show ?thesis by blast
qed

lemma searchTerms_bounds:
  "length (searchTerms cleanAddress) \<le> 5 \<and>
   (\<forall>term \<in> set (searchTerms cleanAddress). 2 \<le> length term)"
  by (auto simp: searchTerms_def dest: in_set_takeD)

text \<open>
  C7, evaluated. Without ranked search, the query \<open>Al_Olaya\<close> has the one term
  \<open>Al_Olaya\<close>; its condition is UPPER(address) LIKE UPPER('%Al_Olaya%'), where the
  underscore of the term matches any character; the address \<open>Al Olaya St, Riyadh\<close> is
  returned although it does not contain the term, in any letter case.
\<close>

theorem geocode_like_wildcard:
  "searchTerms (escapeQuotes (toWesternDigits (trim (ascii ''Al_Olaya'')))) = [ascii ''Al_Olaya''] \<and>
   map_sum id (map (\<lambda>r. getField r Full_address_en))
     (fst (geocode olayaBackend riyadhSdk (ascii ''Al_Olaya'') noOptions)) =
     Inr [Str (ascii ''Al Olaya St, Riyadh'')] \<and>
   \<not> containsText (asciiUpper (ascii ''Al Olaya St, Riyadh'')) (asciiUpper (ascii ''Al_Olaya''))"
  by (simp add: geocode_def ensureInitialized_def orElse_def Let_def truthy_def read_parquet_def
      candidateTiles_def capTiles_def MAX_TILES_def isArabicText_def fallbackQuery_def present_def
      searchTerms_def Spec2Isabelle.split_def isDelimiter_def isWhiteSpace_def
      toWesternDigits_def arabicDigit_def persianDigit_def trim_def escapeQuotes_def apostrophe_def
      percent_def underscore_def likeCondition_def similarityOf_def descKey_def
      geocodeResult_def searchColumns_def olayaBackend_def textAddress_def asciiUpper_def
      riyadh_defs row_defs ascii_def)

end
